theory Spec2Isabelle
  imports Complex_Main "HOL-Library.Sublist" "HOL-Library.Word"
begin

section \<open>Go strings\<close>

text \<open>
  A Go string is a sequence of bytes and is modelled as a \<open>char list\<close> (one \<open>char\<close>
  per byte). The functions of package \<open>strings\<close> that the program calls are modelled
  on bytes, under the names they have in Go.
\<close>

text \<open>\<open>strings.HasPrefix(s, prefix)\<close>.\<close>

definition HasPrefix :: "string \<Rightarrow> string \<Rightarrow> bool" where
  "HasPrefix s p = prefix p s"

text \<open>\<open>strings.TrimPrefix(s, prefix)\<close>: \<open>s\<close> without the leading \<open>prefix\<close>, or \<open>s\<close>.\<close>

definition TrimPrefix :: "string \<Rightarrow> string \<Rightarrow> string" where
  "TrimPrefix s p = (if prefix p s then drop (length p) s else s)"

text \<open>\<open>strings.Contains(s, substr)\<close>: \<open>substr\<close> occurs in \<open>s\<close> as a contiguous block.\<close>

fun Contains :: "string \<Rightarrow> string \<Rightarrow> bool" where
  "Contains [] substr = (substr = [])"
| "Contains (c # cs) substr = (prefix substr (c # cs) \<or> Contains cs substr)"

text \<open>
  \<open>strings.ToLower(s)\<close> on ASCII: the bytes \<open>A\<close> to \<open>Z\<close> become \<open>a\<close> to \<open>z\<close>,
  every other byte is kept. (Go maps whole code points; text outside ASCII is kept
  byte for byte here.)
\<close>

definition asciiUpper :: string where
  "asciiUpper = ''ABCDEFGHIJKLMNOPQRSTUVWXYZ''"

definition asciiLower :: string where
  "asciiLower = ''abcdefghijklmnopqrstuvwxyz''"

definition toLowerByte :: "char \<Rightarrow> char" where
  "toLowerByte c = (case map_of (zip asciiUpper asciiLower) c of Some l \<Rightarrow> l | None \<Rightarrow> c)"

definition ToLower :: "string \<Rightarrow> string" where
  "ToLower s = map toLowerByte s"

text \<open>
  \<open>strings.Split(s, sep)\<close> for a separator that is not empty (the program never passes
  an empty one): the pieces of \<open>s\<close> between the occurrences of \<open>sep\<close>, found from the
  left and not overlapping. \<open>cur\<close> is the piece being read.
\<close>

function splitFrom :: "string \<Rightarrow> string \<Rightarrow> string \<Rightarrow> string list" where
  "splitFrom sep cur [] = [cur]"
| "splitFrom sep cur (c # cs) =
     (if sep \<noteq> [] \<and> prefix sep (c # cs)
      then cur # splitFrom sep [] (drop (length sep) (c # cs))
      else splitFrom sep (cur @ [c]) cs)"
  by pat_completeness auto
termination
  by (relation "measure (\<lambda>(sep, cur, s). length s)") (auto simp: neq_Nil_conv)

definition Split :: "string \<Rightarrow> string \<Rightarrow> string list" where
  "Split s sep = splitFrom sep [] s"

text \<open>
  \<open>strings.Replace(s, old, "", -1)\<close>: every occurrence of \<open>old\<close> (not empty) removed,
  from the left.
\<close>

definition RemoveAll :: "string \<Rightarrow> string \<Rightarrow> string" where
  "RemoveAll s old = concat (Split s old)"

text \<open>
  \<open>strings.TrimSpace(s)\<close>: leading and trailing white space removed. The white space of
  ASCII is tab, line feed, vertical tab, form feed, carriage return and space.
  (Go also removes the white space code points outside ASCII; text outside ASCII is
  kept byte for byte here.)
\<close>

definition isSpace :: "char \<Rightarrow> bool" where
  "isSpace c = (c \<in> set [CHR 0x09, CHR 0x0A, CHR 0x0B, CHR 0x0C, CHR 0x0D, CHR '' ''])"

definition TrimSpace :: "string \<Rightarrow> string" where
  "TrimSpace s = rev (dropWhile isSpace (rev (dropWhile isSpace s)))"

section \<open>Icon classification\<close>

text \<open>
  The icons that \<open>iconFromFeedText\<close> returns (the enumeration's declaration,
  \<open>weather.proto\<close>, is not among the sources; these are the members the code names).
\<close>

datatype WeatherIcon =
  SUNNY | CLOUDY | PARTIALLY_CLOUDY | MOSTLY_CLOUDY | RAIN | CHANCE_OF_RAIN
  | SNOW | THUNDERSTORMS | FOG

definition iconFromFeedText :: "string \<Rightarrow> WeatherIcon" where
  "iconFromFeedText text0 =
     (let text = ToLower text0 in
      if Contains text ''snow'' \<or> Contains text ''flurries'' then SNOW
      else if Contains text ''rain'' then
        (if Contains text ''chance'' \<or> Contains text ''partially'' then CHANCE_OF_RAIN
         else if Contains text ''storm'' \<or> Contains text ''lightning'' then THUNDERSTORMS
         else RAIN)
      else if Contains text ''thunder'' then THUNDERSTORMS
      else if Contains text ''cloud'' then
        (if Contains text ''partially'' then PARTIALLY_CLOUDY
         else if Contains text ''sun'' then MOSTLY_CLOUDY
         else CLOUDY)
      else if Contains text ''fog'' \<or> Contains text ''mist'' then FOG
      else if Contains text ''sunny'' then
        (if Contains text ''partially'' then PARTIALLY_CLOUDY
         else SUNNY)
      else SUNNY)"

subsection \<open>The classification as an ordered table\<close>





section \<open>Go numbers\<close>

text \<open>
  Package \<open>strconv\<close>. A call returns a value and an error; the error is \<open>None\<close> for Go's
  \<open>nil\<close>. On a syntax error the value is 0. \<open>float32\<close> and \<open>float64\<close> values are
  modelled by the real number they stand for: rounding to the nearest float, the float
  range, infinities and NaN are outside the model.
\<close>

datatype numError = ErrSyntax | ErrRange

definition isDigit :: "char \<Rightarrow> bool" where
  "isDigit c = (c \<in> set ''0123456789'')"

definition digitVal :: "char \<Rightarrow> int" where
  "digitVal c = of_char c - 48"

definition digitsVal :: "string \<Rightarrow> int" where
  "digitsVal ds = foldl (\<lambda>a c. 10 * a + digitVal c) 0 ds"

definition isSign :: "char \<Rightarrow> bool" where
  "isSign c = (c = CHR ''+'' \<or> c = CHR ''-'')"

text \<open>The text after an optional leading sign, and whether the sign is a minus.\<close>

definition afterSign :: "string \<Rightarrow> string" where
  "afterSign s = (case s of [] \<Rightarrow> [] | c # cs \<Rightarrow> if isSign c then cs else s)"

definition negative :: "string \<Rightarrow> bool" where
  "negative s = (case s of [] \<Rightarrow> False | c # cs \<Rightarrow> c = CHR ''-'')"

text \<open>
  \<open>strconv.ParseInt(s, 10, bitSize)\<close>: an optional sign and one or more decimal digits.
  A number outside the range of \<open>bitSize\<close> bits gives the nearest bound of the range
  together with \<open>ErrRange\<close>.
\<close>

definition ParseInt :: "nat \<Rightarrow> string \<Rightarrow> int \<times> numError option" where
  "ParseInt bitSize s =
     (let ds = afterSign s; cutoff = (2::int) ^ (bitSize - 1); un = digitsVal ds in
      if ds = [] \<or> \<not> list_all isDigit ds then (0, Some ErrSyntax)
      else if \<not> negative s \<and> un \<ge> cutoff then (cutoff - 1, Some ErrRange)
      else if negative s \<and> un > cutoff then (- cutoff, Some ErrRange)
      else (if negative s then - un else un, None))"

text \<open>
  \<open>strconv.ParseFloat(s, 32)\<close> on plain decimal numbers: an optional sign, digits, and
  at most one point among them (\<open>ip\<close> the digits before it, \<open>fp\<close> those after), with
  at least one digit. Go's parser also reads exponents, hexadecimal mantissas,
  underscores between digits and the words \<open>inf\<close>, \<open>infinity\<close> and \<open>nan\<close>; this model
  reports a syntax error for them.
\<close>

definition ParseFloat :: "string \<Rightarrow> real \<times> numError option" where
  "ParseFloat s =
     (let ds = afterSign s;
          ip = takeWhile (\<lambda>c. c \<noteq> CHR ''.'') ds;
          fp = drop (length ip + 1) ds;
          m = real_of_int (digitsVal (ip @ fp)) / 10 ^ length fp in
      if ip @ fp = [] \<or> \<not> list_all isDigit (ip @ fp) then (0, Some ErrSyntax)
      else (if negative s then - m else m, None))"

text \<open>The conversion \<open>int32(f)\<close> of a float inside the range of \<open>int32\<close>: towards zero.\<close>

definition truncateToInt :: "real \<Rightarrow> int" where
  "truncateToInt f = (if 0 \<le> f then \<lfloor>f\<rfloor> else \<lceil>f\<rceil>)"

section \<open>Numbers in forecast sentences\<close>

text \<open>
  The errors that the functions of the program return: the two of the decoders, the
  status "location not found" of the service, and those of a request for a feed (the
  request cannot be created, the transport fails, the body is not a feed).
\<close>

datatype error =
  ErrNoValuePresent | ErrInvalidDate | ErrLocationNotFound | ErrRequest | ErrTransport | ErrFeedFormat

text \<open>
  The body of the loop of \<open>floatFromFeedText\<close>: \<open>st\<close> is the pair of \<open>ret\<close> and
  \<open>retSet\<close>, and the field is read by its index, as the loop reads the field before it.
\<close>

definition scanField :: "string list \<Rightarrow> real \<times> bool \<Rightarrow> nat \<Rightarrow> real \<times> bool" where
  "scanField fields st fieldIdx =
     (case ParseFloat (fields ! fieldIdx) of
        (val, Some err) \<Rightarrow> st
      | (val, None) \<Rightarrow>
          ((if fieldIdx \<noteq> 0 \<and> fields ! (fieldIdx - 1) = ''minus'' then val * (- 1) else val), True))"

definition floatFromFeedText :: "string \<Rightarrow> error + real" where
  "floatFromFeedText input =
     (let fields = Split input '' '';
          (ret, retSet) = foldl (scanField fields) (0, False) [0..<length fields]
      in if retSet then Inr ret else Inl ErrNoValuePresent)"

subsection \<open>The last-number rule in the specification's words\<close>








section \<open>Conditions\<close>

text \<open>
  The condition record (\<open>weather.WeatherCondition\<close>) with the fields the decoders
  write. The \<open>int32\<close> fields are integers: \<open>ParseInt\<close> keeps its results inside the range
  of \<open>int32\<close>, and the conversion of a float is modelled inside that range only.
\<close>

record WeatherCondition =
  Summary :: string
  SummaryIcon :: WeatherIcon
  Temperature :: real
  DewPoint :: real
  Humidity :: int
  Pressure :: real
  WindSpeed :: int
  Visibility :: int
  WindChill :: real
  UvIndex :: int

text \<open>
  \<open>&weather.WeatherCondition{}\<close>: every field at its zero value. \<open>icon0\<close> is the zero
  value of the icon enumeration, which the declaration missing from the sources fixes.
\<close>

definition emptyCondition :: "WeatherIcon \<Rightarrow> WeatherCondition" where
  "emptyCondition icon0 =
     \<lparr>Summary = [], SummaryIcon = icon0, Temperature = 0, DewPoint = 0, Humidity = 0,
      Pressure = 0, WindSpeed = 0, Visibility = 0, WindChill = 0, UvIndex = 0\<rparr>"

subsection \<open>The current-conditions decoder\<close>

text \<open>A record of the feed as the loop reads it: trimmed, without the bold tags.\<close>

definition stripMarkup :: "string \<Rightarrow> string" where
  "stripMarkup record = RemoveAll (RemoveAll (TrimSpace record) ''<b>'') ''</b>''"

text \<open>The body of the loop of \<open>currentConditionsToCondition\<close>, for one record.\<close>

definition decodeRecord :: "WeatherCondition \<Rightarrow> string \<Rightarrow> WeatherCondition" where
  "decodeRecord cond record0 =
     (let record = stripMarkup record0;
          recordParts = Split record '':''
      in if length recordParts \<noteq> 2 then cond
         else
           (let label = recordParts ! 0; str = TrimSpace (recordParts ! 1) in
            if label = ''Condition'' then
              cond\<lparr>Summary := str, SummaryIcon := iconFromFeedText str\<rparr>
            else if label = ''Temperature'' then
              cond\<lparr>Temperature := fst (ParseFloat (RemoveAll str ''&deg;C''))\<rparr>
            else if label = ''Wind Chill'' then
              cond\<lparr>WindChill := fst (ParseFloat (RemoveAll str ''&deg;C''))\<rparr>
            else if label = ''Dewpoint'' then
              cond\<lparr>DewPoint := fst (ParseFloat (RemoveAll str ''&deg;C''))\<rparr>
            else if label = ''Pressure'' then
              cond\<lparr>Pressure := fst (ParseFloat (RemoveAll str '' kPa''))\<rparr>
            else if label = ''Visibility'' then
              cond\<lparr>Visibility := truncateToInt (fst (ParseFloat (RemoveAll str '' km'')))\<rparr>
            else if label = ''Humidity'' then
              cond\<lparr>Humidity := fst (ParseInt 32 (RemoveAll str '' %''))\<rparr>
            else if label = ''Wind'' then
              (let parts = Split str '' '';
                   str = (if length parts = 2 then parts ! 0
                          else if length parts = 3 then parts ! 1
                          else str)
               in cond\<lparr>WindSpeed := fst (ParseInt 32 str)\<rparr>)
            else cond))"

definition currentConditionsToCondition :: "WeatherIcon \<Rightarrow> string \<Rightarrow> WeatherCondition" where
  "currentConditionsToCondition icon0 cc =
     foldl decodeRecord (emptyCondition icon0) (Split cc ''<br/>'')"

subsection \<open>The forecast decoder\<close>

text \<open>The body of the loop of \<open>forecastConditionToCondition\<close>, for a record after the first.\<close>

definition forecastRecord :: "WeatherCondition \<Rightarrow> string \<Rightarrow> WeatherCondition" where
  "forecastRecord cond record0 =
     (let record = TrimSpace record0 in
      if HasPrefix record ''Wind chill'' then
        (case floatFromFeedText record of
           Inr val \<Rightarrow> cond\<lparr>WindChill := val\<rparr>
         | Inl err \<Rightarrow> cond)
      else if HasPrefix record ''Wind'' then
        (let strippedRecord = TrimPrefix record ''Wind '';
             fields = Split strippedRecord '' ''
         in case find (\<lambda>fieldIdx. fields ! fieldIdx = ''km/h'' \<and> fieldIdx \<noteq> 0
                         \<and> snd (ParseInt 32 (fields ! (fieldIdx - 1))) = None)
                   [0..<length fields] of
              Some fieldIdx \<Rightarrow> cond\<lparr>WindSpeed := fst (ParseInt 32 (fields ! (fieldIdx - 1)))\<rparr>
            | None \<Rightarrow> cond)
      else if HasPrefix record ''UV index'' then
        (let strippedRecord = TrimPrefix record ''UV index '';
             fields = Split strippedRecord '' ''
         in case ParseInt 8 (fields ! 0) of
              (val, None) \<Rightarrow> cond\<lparr>UvIndex := val\<rparr>
            | (val, Some err) \<Rightarrow> cond)
      else if HasPrefix record ''High'' \<or> HasPrefix record ''Low''
              \<or> HasPrefix record ''Temperature'' then
        (case floatFromFeedText record of
           Inr val \<Rightarrow> cond\<lparr>Temperature := val\<rparr>
         | Inl err \<Rightarrow> cond)
      else cond)"

text \<open>
  \<open>strings.Split\<close> returns at least one piece, so the record of index 0, the summary,
  is always there.
\<close>

definition forecastConditionToCondition :: "WeatherIcon \<Rightarrow> string \<Rightarrow> WeatherCondition" where
  "forecastConditionToCondition icon0 fc =
     (case Split fc ''.'' of
        [] \<Rightarrow> emptyCondition icon0
      | record0 # records \<Rightarrow>
          foldl forecastRecord
            ((emptyCondition icon0)\<lparr>Summary := TrimSpace record0,
                                     SummaryIcon := iconFromFeedText (TrimSpace record0)\<rparr>)
            records)"

section \<open>Dates\<close>

text \<open>
  A \<open>time.Time\<close> of the feed, read in its own location: the civil day, counted in days
  from 1 January 1970, and the clock, in seconds from midnight. The instant it stands
  for and its time zone are outside the model.
\<close>

record Time =
  day :: int
  clock :: int

text \<open>
  \<open>time.Date(year, month, day, hour, min, sec, 0, loc)\<close> for a date of the proleptic
  Gregorian calendar: the day number is counted in eras of 400 years, from 1 March.
\<close>

definition daysFromCivil :: "int \<Rightarrow> int \<Rightarrow> int \<Rightarrow> int" where
  "daysFromCivil y m d =
     (let y' = (if m \<le> 2 then y - 1 else y);
          era = y' div 400;
          yoe = y' - era * 400;
          doy = (153 * (if m > 2 then m - 3 else m + 9) + 2) div 5 + d - 1;
          doe = yoe * 365 + yoe div 4 - yoe div 100 + doy
      in era * 146097 + doe - 719468)"

definition Date :: "int \<Rightarrow> int \<Rightarrow> int \<Rightarrow> int \<Rightarrow> int \<Rightarrow> int \<Rightarrow> Time" where
  "Date y m d hour minute sec = \<lparr>day = daysFromCivil y m d, clock = hour * 3600 + minute * 60 + sec\<rparr>"

text \<open>\<open>t.Weekday()\<close>, Sunday being 0: 1 January 1970 was a Thursday.\<close>

definition Weekday :: "Time \<Rightarrow> nat" where
  "Weekday t = nat ((day t + 4) mod 7)"

definition weekdayNames :: "string list" where
  "weekdayNames = [''Sunday'', ''Monday'', ''Tuesday'', ''Wednesday'', ''Thursday'', ''Friday'', ''Saturday'']"

text \<open>\<open>t.Format("Monday")\<close>: the full name of the weekday.\<close>

definition FormatMonday :: "Time \<Rightarrow> string" where
  "FormatMonday t = weekdayNames ! Weekday t"

text \<open>\<open>t.AddDate(0, 0, days)\<close>: the same clock, \<open>days\<close> days later.\<close>

definition AddDate :: "Time \<Rightarrow> int \<Rightarrow> Time" where
  "AddDate t days = t\<lparr>day := day t + days\<rparr>"

text \<open>
  \<open>time.Date(t.Year(), t.Month(), t.Day(), hour, 0, 0, 0, t.Location())\<close>: the day
  of \<open>t\<close> with the clock at the full hour.
\<close>

definition atHour :: "Time \<Rightarrow> int \<Rightarrow> Time" where
  "atHour t hour = t\<lparr>clock := hour * 3600\<rparr>"

subsection \<open>The relative date resolver\<close>

definition dayOfWeek :: "string list" where
  "dayOfWeek = [''sunday'', ''monday'', ''tuesday'', ''wednesday'', ''thursday'', ''friday'', ''saturday'']"

definition deltaBetweenDays :: "int list list" where
  "deltaBetweenDays =
     [[0, 1, 2, 3, 4, 5, 6],
      [6, 0, 1, 2, 3, 4, 5],
      [5, 6, 0, 1, 2, 3, 4],
      [4, 5, 6, 0, 1, 2, 3],
      [3, 4, 5, 6, 0, 1, 2],
      [2, 3, 4, 5, 6, 0, 1],
      [1, 2, 3, 4, 5, 6, 0]]"

text \<open>
  The search loops of \<open>futureDateFromFeedDate\<close>: the index of the first entry equal to
  \<open>x\<close>, counted from \<open>idx\<close>, and -1 when there is none.
\<close>

fun indexFrom :: "int \<Rightarrow> string list \<Rightarrow> string \<Rightarrow> int" where
  "indexFrom idx [] x = - 1"
| "indexFrom idx (d # ds) x = (if d = x then idx else indexFrom (idx + 1) ds x)"

text \<open>The function returns a date together with an error; \<open>None\<close> is Go's \<open>nil\<close>.\<close>

definition futureDateFromFeedDate :: "Time \<Rightarrow> string \<Rightarrow> Time \<times> error option" where
  "futureDateFromFeedDate startDate futureDayOfWeek0 =
     (let futureDayOfWeek = ToLower futureDayOfWeek0;
          startDayOfWeek = ToLower (FormatMonday startDate);
          futureDayIdx = indexFrom 0 dayOfWeek futureDayOfWeek;
          startDayIdx = indexFrom 0 dayOfWeek startDayOfWeek
      in if futureDayIdx < 0 \<or> startDayIdx < 0 then (startDate, Some ErrInvalidDate)
         else
           (let delta = deltaBetweenDays ! nat startDayIdx ! nat futureDayIdx;
                futureDate = AddDate startDate delta
            in (futureDate, None)))"

section \<open>The feed of a station\<close>

text \<open>
  A run-time panic of Go: a function that panics returns nothing, and the panic goes
  up through its callers. A function that can panic has a result \<open>panic + 'a\<close>.
\<close>

datatype panic = NilPointerDereference | InterfaceConversion | IndexOutOfRange

text \<open>
  An item of the decoded feed (\<open>gofeed.Item\<close>), with the fields \<open>parseFeed\<close> reads. The
  two dates are pointers: \<open>None\<close> is \<open>nil\<close>, the date the decoder could not read.
\<close>

record Item =
  Categories :: "string list"
  Title :: string
  Description :: string
  GUID :: string
  PublishedParsed :: "Time option"
  UpdatedParsed :: "Time option"

record Feed =
  Items :: "Item list"

text \<open>
  The report and the forecast (\<open>weather.WeatherReport\<close>, \<open>weather.WeatherForecast\<close>).
  Both carry conditions and the dates of creation and update; a date that is not set
  is \<open>None\<close>.
\<close>

record Stamped =
  Conditions :: WeatherCondition
  CreatedAt :: "Time option"
  UpdatedAt :: "Time option"

record WeatherReport = Stamped +
  ObservationId :: string
  ObservedAt :: "Time option"

record WeatherForecast = Stamped +
  ForecastId :: string
  ForecastedFor :: "Time option"

text \<open>A loop whose body can panic: the first panic ends it.\<close>

fun foldPanic :: "('s \<Rightarrow> 'a \<Rightarrow> panic + 's) \<Rightarrow> 's \<Rightarrow> 'a list \<Rightarrow> panic + 's" where
  "foldPanic f s [] = Inr s"
| "foldPanic f s (x # xs) = (case f s x of Inl p \<Rightarrow> Inl p | Inr s' \<Rightarrow> foldPanic f s' xs)"

text \<open>The tokens of the title before its first colon: the day of the week, then maybe \<open>night\<close>.\<close>

definition forecastDayOfWeek :: "string \<Rightarrow> string list" where
  "forecastDayOfWeek title = Split (Split title '':'' ! 0) '' ''"

text \<open>
  The forecast that \<open>parseFeed\<close> builds for an item of category "Weather Forecasts",
  once the two dates of the item are read.
\<close>

definition itemForecast :: "WeatherIcon \<Rightarrow> Item \<Rightarrow> Time \<Rightarrow> Time \<Rightarrow> WeatherForecast" where
  "itemForecast icon0 item published updated =
     (let forecast = \<lparr>Conditions = forecastConditionToCondition icon0 (Description item),
                      CreatedAt = Some published, UpdatedAt = Some updated,
                      ForecastId = GUID item, ForecastedFor = None\<rparr>;
          (forecastFor, err) = futureDateFromFeedDate published (forecastDayOfWeek (Title item) ! 0)
      in if err = None then
           (if length (forecastDayOfWeek (Title item)) > 1
                \<and> forecastDayOfWeek (Title item) ! 1 = ''night''
            then forecast\<lparr>ForecastedFor := Some (atHour forecastFor 23)\<rparr>
            else forecast\<lparr>ForecastedFor := Some (atHour forecastFor 12)\<rparr>)
         else forecast)"

text \<open>
  The body of the inner loop of \<open>parseFeed\<close>, for one category of an item. The state
  is the report and the forecasts so far. Reading a date that is \<open>nil\<close> panics.
\<close>

definition parseCategory ::
  "WeatherIcon \<Rightarrow> Item \<Rightarrow> WeatherReport \<times> WeatherForecast list \<Rightarrow> string
   \<Rightarrow> panic + (WeatherReport \<times> WeatherForecast list)" where
  "parseCategory icon0 item st category =
     (if category = ''Current Conditions'' then
        (case UpdatedParsed item of
           None \<Rightarrow> Inl NilPointerDereference
         | Some updated \<Rightarrow>
             (case PublishedParsed item of
                None \<Rightarrow> Inl NilPointerDereference
              | Some published \<Rightarrow>
                  Inr (\<lparr>Conditions = currentConditionsToCondition icon0 (Description item),
                        CreatedAt = Some published, UpdatedAt = Some updated,
                        ObservationId = GUID item, ObservedAt = Some updated\<rparr>,
                       snd st)))
      else if category = ''Weather Forecasts'' then
        (case PublishedParsed item of
           None \<Rightarrow> Inl NilPointerDereference
         | Some published \<Rightarrow>
             (case UpdatedParsed item of
                None \<Rightarrow> Inl NilPointerDereference
              | Some updated \<Rightarrow>
                  Inr (fst st, snd st @ [itemForecast icon0 item published updated])))
      else Inr st)"

text \<open>
  \<open>parseFeed\<close>. The feed is a pointer, \<open>None\<close> being \<open>nil\<close>, and reading the items of
  a \<open>nil\<close> feed panics. The error the function returns is always \<open>nil\<close> and is left out.
\<close>

definition parseFeed ::
  "WeatherIcon \<Rightarrow> Feed option \<Rightarrow> panic + (WeatherReport \<times> WeatherForecast list)" where
  "parseFeed icon0 feed =
     (case feed of
        None \<Rightarrow> Inl NilPointerDereference
      | Some f \<Rightarrow>
          foldPanic (\<lambda>st item. foldPanic (parseCategory icon0 item) st (Categories item))
            (\<lparr>Conditions = emptyCondition icon0, CreatedAt = None, UpdatedAt = None,
              ObservationId = [], ObservedAt = None\<rparr>, [])
            (Items f))"


subsection \<open>Example items\<close>

text \<open>Two forecast items published on Saturday 2019-01-05: one for the night, one with a title that names no day.\<close>

definition nightItem :: Item where
  "nightItem =
     \<lparr>Categories = [''Weather Forecasts''], Title = ''Saturday night: Cloudy. Low minus 5.'',
      Description = ''Cloudy. Low minus 5.'', GUID = ''g1'',
      PublishedParsed = Some (Date 2019 1 5 10 0 0), UpdatedParsed = Some (Date 2019 1 5 11 0 0)\<rparr>"


section \<open>The set of places\<close>

text \<open>
  \<open>float64\<close> coordinates and distances are real numbers here: the model has no
  rounding and no NaN, so every comparison of two distances is decided.
\<close>

text \<open>\<open>math.MaxFloat64\<close>, the largest finite \<open>float64\<close>.\<close>

definition MaxFloat64 :: real where
  "MaxFloat64 = 2 ^ 1024 - 2 ^ 971"

text \<open>
  An entry of the set. The value is the payload, a value that is not \<open>nil\<close>; where the
  code has Go's \<open>nil\<close> for "no value", the model has \<open>None\<close>.
\<close>

record 'a entry =
  latitude :: real
  longitude :: real
  "value" :: 'a

record 'a GeoSet =
  entries :: "'a entry list"

definition NewGeoSet :: "'a GeoSet" where
  "NewGeoSet = \<lparr>entries = []\<rparr>"

definition Add :: "'a GeoSet \<Rightarrow> real \<Rightarrow> real \<Rightarrow> 'a \<Rightarrow> 'a GeoSet" where
  "Add gs lat lon v = gs\<lparr>entries := entries gs @ [\<lparr>latitude = lat, longitude = lon, value = v\<rparr>]\<rparr>"

text \<open>The haversine function, and the great-circle distance between two points in degrees.\<close>

definition hsin :: "real \<Rightarrow> real" where
  "hsin theta = (sin (theta / 2)) ^ 2"

definition distance :: "real \<Rightarrow> real \<Rightarrow> real \<Rightarrow> real \<Rightarrow> real" where
  "distance lat1 lon1 lat2 lon2 =
     (let r = 6371000;
          la1 = lat1 * pi / 180;
          lo1 = lon1 * pi / 180;
          la2 = lat2 * pi / 180;
          lo2 = lon2 * pi / 180;
          h = hsin (la2 - la1) + cos la1 * cos la2 * hsin (lo2 - lo1)
      in 2 * r * arcsin (sqrt h))"

text \<open>The distance from the query point to an entry, as the loop of \<open>Closest\<close> computes it.\<close>

definition entryDistance :: "real \<Rightarrow> real \<Rightarrow> 'a entry \<Rightarrow> real" where
  "entryDistance lat lon entry = distance lat lon (latitude entry) (longitude entry)"

text \<open>
  The body of the loop of \<open>Closest\<close>: the state is the shortest distance so far and the
  value that has it.
\<close>

definition closestStep :: "real \<Rightarrow> real \<Rightarrow> real \<times> 'a option \<Rightarrow> 'a entry \<Rightarrow> real \<times> 'a option" where
  "closestStep lat lon st entry =
     (let (shortestDistance, val) = st;
          distance = entryDistance lat lon entry
      in if distance < shortestDistance then (distance, Some (value entry))
         else (shortestDistance, val))"

definition Closest :: "'a GeoSet \<Rightarrow> real \<Rightarrow> real \<Rightarrow> 'a option" where
  "Closest gs lat lon = snd (foldl (closestStep lat lon) (MaxFloat64, None) (entries gs))"


section \<open>Stations\<close>

text \<open>
  An instant of the clock (\<open>time.Now()\<close>) is a number of nanoseconds counted from Go's
  zero time, so the zero \<open>time.Time\<close> of a station that was never refreshed is 0.
\<close>

definition refreshFrequency :: int where
  "refreshFrequency = 30 * 60 * 1000000000"

text \<open>
  A station of Environment Canada. The fields \<open>latitude\<close> and \<open>longitude\<close> of the Go
  struct are \<open>stationLatitude\<close> and \<open>stationLongitude\<close> here, the short names being the
  fields of an entry. \<open>currentReport\<close> is a pointer, \<open>nil\<close> until the first refresh.
  \<open>fetches\<close> is not a field of the struct: it counts the calls of \<open>getFeed\<close>, the
  station's requests to the provider.
\<close>

record Station =
  url :: string
  title :: string
  stationLatitude :: real
  stationLongitude :: real
  currentReport :: "WeatherReport option"
  forecast :: "WeatherForecast list"
  lastRefreshed :: int
  fetches :: nat

definition NewStation :: "string \<Rightarrow> string \<Rightarrow> real \<Rightarrow> real \<Rightarrow> Station" where
  "NewStation stationUrl stationTitle lat lon =
     \<lparr>url = stationUrl, title = stationTitle, stationLatitude = lat, stationLongitude = lon,
      currentReport = None, forecast = [], lastRefreshed = 0, fetches = 0\<rparr>"

text \<open>
  What happens to the request of one \<open>getFeed\<close>: the request cannot be created, the
  client fails to perform it, or a response arrives with its status code and what the
  feed parser makes of its body (\<open>None\<close> for a body that is not a feed).
\<close>

datatype exchange = NoRequest | TransportError | Response nat "Feed option"

text \<open>\<open>getFeed\<close> returns a feed pointer and an error. A status other than 200 gives \<open>nil, nil\<close>.\<close>

definition getFeed :: "exchange \<Rightarrow> Station \<Rightarrow> Station \<times> Feed option \<times> error option" where
  "getFeed ex s =
     (let s' = s\<lparr>fetches := fetches s + 1\<rparr> in
      case ex of
        NoRequest \<Rightarrow> (s', None, Some ErrRequest)
      | TransportError \<Rightarrow> (s', None, Some ErrTransport)
      | Response statusCode body \<Rightarrow>
          (if statusCode \<noteq> 200 then (s', None, None)
           else case body of
                  None \<Rightarrow> (s', None, Some ErrFeedFormat)
                | Some feed \<Rightarrow> (s', Some feed, None)))"

text \<open>\<open>refresh\<close>, with the exchange of its request and the clock when it stores the result.\<close>

definition refresh :: "WeatherIcon \<Rightarrow> exchange \<Rightarrow> int \<Rightarrow> Station \<Rightarrow> panic + (Station \<times> error option)" where
  "refresh icon0 ex now s =
     (case getFeed ex s of
        (s', feed, Some err) \<Rightarrow> Inr (s', Some err)
      | (s', feed, None) \<Rightarrow>
          (case parseFeed icon0 feed of
             Inl p \<Rightarrow> Inl p
           | Inr (report, forecasts) \<Rightarrow>
               Inr (s'\<lparr>currentReport := Some report, forecast := forecasts, lastRefreshed := now\<rparr>,
                    None)))"

text \<open>\<open>time.Now().Add(refreshFrequency * -1).After(s.lastRefreshed)\<close>.\<close>

definition shouldRefresh :: "int \<Rightarrow> Station \<Rightarrow> bool" where
  "shouldRefresh now s = (now + refreshFrequency * (- 1) > lastRefreshed s)"

text \<open>
  What a call of \<open>GetReport\<close> or \<open>GetForecast\<close> meets: the clock when it checks the
  cache, the exchange of its request if it makes one, the clock when it stores the result.
\<close>

record env =
  nowAtCheck :: int
  upstream :: exchange
  nowAtStore :: int

definition GetReport ::
  "WeatherIcon \<Rightarrow> env \<Rightarrow> Station \<Rightarrow> panic + (Station \<times> WeatherReport option \<times> error option)" where
  "GetReport icon0 e s =
     (if shouldRefresh (nowAtCheck e) s then
        (case refresh icon0 (upstream e) (nowAtStore e) s of
           Inl p \<Rightarrow> Inl p
         | Inr (s', Some err) \<Rightarrow> Inr (s', None, Some err)
         | Inr (s', None) \<Rightarrow> Inr (s', currentReport s', None))
      else Inr (s, currentReport s, None))"

definition GetForecast ::
  "WeatherIcon \<Rightarrow> env \<Rightarrow> Station \<Rightarrow> panic + (Station \<times> WeatherForecast list \<times> error option)" where
  "GetForecast icon0 e s =
     (if shouldRefresh (nowAtCheck e) s then
        (case refresh icon0 (upstream e) (nowAtStore e) s of
           Inl p \<Rightarrow> Inl p
         | Inr (s', Some err) \<Rightarrow> Inr (s', [], Some err)
         | Inr (s', None) \<Rightarrow> Inr (s', forecast s', None))
      else Inr (s, forecast s, None))"

section \<open>The service\<close>

text \<open>
  The stations are objects that the set of places points to: the payload of an entry
  is the address of a station, an index into the list of the station objects. A value of
  the interface \<open>Station\<close> is such an address, or \<open>None\<close> for the \<open>nil\<close> interface.
\<close>

record API =
  stations :: "nat GeoSet"

definition NewAPI :: API where
  "NewAPI = \<lparr>stations = NewGeoSet\<rparr>"

definition RegisterStation :: "API \<Rightarrow> Station list \<Rightarrow> nat \<Rightarrow> panic + API" where
  "RegisterStation api heap a =
     (if a < length heap
      then Inr (api\<lparr>stations := Add (stations api) (stationLatitude (heap ! a))
                                    (stationLongitude (heap ! a)) a\<rparr>)
      else Inl NilPointerDereference)"

text \<open>
  The type assertion \<open>x.(Station)\<close> in its one-result form: it panics when \<open>x\<close> is the
  \<open>nil\<close> interface, and yields the station otherwise.
\<close>

definition assertStation :: "nat option \<Rightarrow> panic + nat option" where
  "assertStation x = (case x of None \<Rightarrow> Inl InterfaceConversion | Some a \<Rightarrow> Inr (Some a))"

record Request =
  Latitude :: real
  Longitude :: real

record GetCurrentReportResponse =
  Report :: "WeatherReport option"
  StationName :: string

record GetForecastResponse =
  ForecastRecords :: "WeatherForecast list"

text \<open>
  The two queries. Each returns a response pointer and an error, and leaves the station
  objects as the station's method left them.
\<close>

definition API_GetCurrentReport ::
  "WeatherIcon \<Rightarrow> API \<Rightarrow> Station list \<Rightarrow> env \<Rightarrow> Request
   \<Rightarrow> panic + (Station list \<times> GetCurrentReportResponse option \<times> error option)" where
  "API_GetCurrentReport icon0 api heap e req =
     (case assertStation (Closest (stations api) (Latitude req) (Longitude req)) of
        Inl p \<Rightarrow> Inl p
      | Inr None \<Rightarrow> Inr (heap, None, Some ErrLocationNotFound)
      | Inr (Some a) \<Rightarrow>
          (if a < length heap then
             (case GetReport icon0 e (heap ! a) of
                Inl p \<Rightarrow> Inl p
              | Inr (s', report, err) \<Rightarrow>
                  Inr (heap[a := s'], Some \<lparr>Report = report, StationName = title s'\<rparr>, None))
           else Inl NilPointerDereference))"

definition API_GetForecast ::
  "WeatherIcon \<Rightarrow> API \<Rightarrow> Station list \<Rightarrow> env \<Rightarrow> Request
   \<Rightarrow> panic + (Station list \<times> GetForecastResponse option \<times> error option)" where
  "API_GetForecast icon0 api heap e req =
     (case assertStation (Closest (stations api) (Latitude req) (Longitude req)) of
        Inl p \<Rightarrow> Inl p
      | Inr None \<Rightarrow> Inr (heap, None, Some ErrLocationNotFound)
      | Inr (Some a) \<Rightarrow>
          (if a < length heap then
             (case GetForecast icon0 e (heap ! a) of
                Inl p \<Rightarrow> Inl p
              | Inr (s', forecasts, Some err) \<Rightarrow> Inr (heap[a := s'], None, Some err)
              | Inr (s', forecasts, None) \<Rightarrow>
                  Inr (heap[a := s'], Some \<lparr>ForecastRecords = forecasts\<rparr>, None))
           else Inl NilPointerDereference))"

subsection \<open>Example station and calls\<close>

text \<open>
  The station that the server registers, never refreshed, and the service with that
  one station at address 0.
\<close>

definition kitchener :: Station where
  "kitchener =
     NewStation ''https://weather.gc.ca/rss/weather/43.451_-80.488_e.xml'' ''Kitchener Waterloo''
       43.451 (- 80.488)"

definition kitchenerAPI :: API where
  "kitchenerAPI = \<lparr>stations = Add NewGeoSet 43.451 (- 80.488) 0\<rparr>"

text \<open>
  Three calls: one long after the zero time, answered with a feed without items; one
  exactly 30 minutes after the first stored its result; one a nanosecond later,
  answered with a feed of one forecast.
\<close>

definition firstCall :: env where
  "firstCall = \<lparr>nowAtCheck = 2000000000000, upstream = Response 200 (Some \<lparr>Items = []\<rparr>),
                 nowAtStore = 2000000000001\<rparr>"

definition secondCall :: env where
  "secondCall = \<lparr>nowAtCheck = 3800000000001, upstream = Response 200 (Some \<lparr>Items = []\<rparr>),
                  nowAtStore = 3800000000002\<rparr>"

definition thirdCall :: env where
  "thirdCall = \<lparr>nowAtCheck = 3800000000002, upstream = Response 200 (Some \<lparr>Items = [nightItem]\<rparr>),
                 nowAtStore = 3800000000003\<rparr>"

text \<open>The station after the first call, and the report of a feed without items.\<close>

definition emptyReport :: "WeatherIcon \<Rightarrow> WeatherReport" where
  "emptyReport icon0 =
     \<lparr>Conditions = emptyCondition icon0, CreatedAt = None, UpdatedAt = None,
      ObservationId = [], ObservedAt = None\<rparr>"

definition kitchenerRefreshed :: Station where
  "kitchenerRefreshed =
     kitchener\<lparr>fetches := 1, currentReport := Some (emptyReport SUNNY), forecast := [],
               lastRefreshed := 2000000000001\<rparr>"

section \<open>The NOAA adapter\<close>

text \<open>
  A property of a feature (\<open>propertyFloat\<close>, \<open>propertyInt\<close>) and a value of its list
  (\<open>propertyValueFloat\<close>, \<open>propertyValueInt\<close>), over the type of the value: a real number
  for \<open>float64\<close>, a word of 64 bits for \<open>int\<close>.
\<close>

record 'v propertyValue =
  ValidTime :: string
  Value :: 'v

record 'v property =
  SourceUnit :: string
  UnitOfMeasure :: string
  Values :: "'v propertyValue list"

text \<open>
  A feature: its properties are a map from names to pointers to raw JSON text, and a
  pointer may be \<open>nil\<close> (\<open>None\<close>).
\<close>

record feature =
  Type :: string
  Properties :: "string \<rightharpoonup> string option"

text \<open>
  The two extractions. \<open>unmarshal\<close> is \<open>json.Unmarshal\<close> into the property struct:
  \<open>None\<close> when it returns an error. A result \<open>Inl\<close> is a panic: of the read of a \<open>nil\<close>
  pointer, or of the index 0 of an empty list of values.
\<close>

definition getCurrentFloatFromProperty ::
  "(string \<Rightarrow> real property option) \<Rightarrow> feature \<Rightarrow> string \<Rightarrow> panic + real" where
  "getCurrentFloatFromProperty unmarshal f propName =
     (case Properties f propName of
        None \<Rightarrow> Inr 0
      | Some prop \<Rightarrow>
          (case prop of
             None \<Rightarrow> Inl NilPointerDereference
           | Some raw \<Rightarrow>
               (case unmarshal raw of
                  None \<Rightarrow> Inr 0
                | Some property \<Rightarrow>
                    (case Values property of
                       [] \<Rightarrow> Inl IndexOutOfRange
                     | v # vs \<Rightarrow>
                         (let val = Value v in
                          Inr (if UnitOfMeasure property = ''unit:degF''
                               then (val - 32) * 5 / 9 else val))))))"

text \<open>\<open>int32(val)\<close> keeps the low 32 bits of the \<open>int\<close>.\<close>

definition getCurrentIntFromProperty ::
  "(string \<Rightarrow> 64 word property option) \<Rightarrow> feature \<Rightarrow> string \<Rightarrow> panic + 32 word" where
  "getCurrentIntFromProperty unmarshal f propName =
     (case Properties f propName of
        None \<Rightarrow> Inr 0
      | Some prop \<Rightarrow>
          (case prop of
             None \<Rightarrow> Inl NilPointerDereference
           | Some raw \<Rightarrow>
               (case unmarshal raw of
                  None \<Rightarrow> Inr 0
                | Some property \<Rightarrow>
                    (case Values property of
                       [] \<Rightarrow> Inl IndexOutOfRange
                     | v # vs \<Rightarrow> Inr (ucast (Value v))))))"

text \<open>
  The precondition: every property of the feature that is present and that unmarshals
  has a value in its list.
\<close>

definition valuesPresent :: "(string \<Rightarrow> 'v property option) \<Rightarrow> feature \<Rightarrow> bool" where
  "valuesPresent unmarshal f =
     (\<forall>propName raw property.
        Properties f propName = Some (Some raw) \<and> unmarshal raw = Some property
        \<longrightarrow> Values property \<noteq> [])"

subsection \<open>Example feature\<close>

text \<open>
  A feature with a temperature in degrees Fahrenheit, a dew point that does not
  unmarshal and a humidity; and one whose wind speed has no values.
\<close>

definition exampleFloats :: "string \<Rightarrow> real property option" where
  "exampleFloats =
     map_of [(''T'', \<lparr>SourceUnit = ''NWS'', UnitOfMeasure = ''unit:degF'',
                      Values = [\<lparr>ValidTime = ''2024-11-20T10:00:00+00:00/PT1H'', Value = 212\<rparr>]\<rparr>),
             (''W'', \<lparr>SourceUnit = ''NWS'', UnitOfMeasure = ''unit:km_h-1'', Values = []\<rparr>)]"

definition exampleInts :: "string \<Rightarrow> 64 word property option" where
  "exampleInts =
     map_of [(''H'', \<lparr>SourceUnit = ''NWS'', UnitOfMeasure = ''unit:percent'',
                      Values = [\<lparr>ValidTime = ''2024-11-20T10:00:00+00:00/PT1H'', Value = 86\<rparr>]\<rparr>)]"

definition exampleFeature :: feature where
  "exampleFeature =
     \<lparr>Type = ''Feature'',
      Properties = map_of [(''temperature'', Some ''T''), (''dewpoint'', Some ''?''),
                           (''relativeHumidity'', Some ''H'')]\<rparr>"

definition calmFeature :: feature where
  "calmFeature = \<lparr>Type = ''Feature'', Properties = map_of [(''windSpeed'', Some ''W'')]\<rparr>"

section \<open>Properties\<close>

subsection \<open>Strings\<close>

lemma Contains_iff_sublist: "Contains s sub \<longleftrightarrow> sublist sub s"
  by (induction s) (auto simp: sublist_Cons_right)

subsection \<open>Icon classification\<close>



subsection \<open>Numbers in forecast sentences\<close>











subsection \<open>The current-conditions decoder\<close>








lemma foldl_ignored:
  "(\<And>c. f c r = c) \<Longrightarrow> foldl f c (rs @ r # rs') = foldl f c (rs @ rs')"
  by simp





subsection \<open>The relative date resolver\<close>













subsection \<open>The feed of a station\<close>










subsection \<open>The set of places\<close>

lemma haversine_unit:
  fixes a b c :: real
  defines "h \<equiv> hsin (a - b) + cos b * cos a * hsin c"
  shows "0 \<le> h \<and> h \<le> 1"
proof -
  define s where "s = (sin ((a - b) / 2))\<^sup>2"
  define t where "t = (sin (c / 2))\<^sup>2"
  define C where "C = cos (a + b)"
  have s: "0 \<le> s" "s \<le> 1" by (simp_all add: s_def abs_square_le_1 power2_eq_square [symmetric])
  have t: "0 \<le> t" "t \<le> 1" by (simp_all add: t_def abs_square_le_1)
  have C: "- 1 \<le> C" "C \<le> 1" by (simp_all add: C_def)
  have "cos (2 * ((a - b) / 2)) = 1 - 2 * (sin ((a - b) / 2))\<^sup>2"
    by (rule cos_double_sin)
  moreover have "2 * ((a - b) / 2) = a - b"
    by simp
  ultimately have "cos (a - b) = 1 - 2 * s"
    by (simp only: s_def)
  moreover have "cos (a - b) + cos (a + b) = 2 * (cos b * cos a)"
    by (simp add: cos_diff cos_add)
  ultimately have prod: "cos b * cos a = (1 - 2 * s + C) / 2"
    by (simp add: C_def)
  have h: "h = s + (1 - 2 * s + C) / 2 * t"
    by (simp add: h_def hsin_def prod s_def t_def)
  have lower: "h = s * (1 - t) + t * (1 + C) / 2"
    unfolding h by (simp add: field_simps)
  have upper: "1 - h = (1 - s) * (1 - t) + t * (1 - C) / 2"
    unfolding h by (simp add: field_simps)
  have "0 \<le> s * (1 - t)" using s t by (intro mult_nonneg_nonneg) simp_all
  moreover have "0 \<le> t * (1 + C) / 2" using t C by simp
  ultimately have "0 \<le> h" by (simp add: lower)
  have "0 \<le> (1 - s) * (1 - t)" using s t by (intro mult_nonneg_nonneg) simp_all
  moreover have "0 \<le> t * (1 - C) / 2" using t C by simp
  ultimately have "0 \<le> 1 - h" by (simp only: upper add_nonneg_nonneg)
  with \<open>0 \<le> h\<close> show ?thesis by simp
qed

lemma distance_bounds: "0 \<le> distance lat1 lon1 lat2 lon2 \<and> distance lat1 lon1 lat2 lon2 < MaxFloat64"
proof -
  define h where "h = hsin (lat2 * pi / 180 - lat1 * pi / 180)
      + cos (lat1 * pi / 180) * cos (lat2 * pi / 180) * hsin (lon2 * pi / 180 - lon1 * pi / 180)"
  have h: "0 \<le> h \<and> h \<le> 1"
    unfolding h_def by (rule haversine_unit)
  then have root: "0 \<le> sqrt h" "sqrt h \<le> 1" by simp_all
  have "0 \<le> arcsin (sqrt h)"
    using root by (intro arcsin_nonneg) simp
  moreover have "arcsin (sqrt h) \<le> pi / 2"
  proof (rule arcsin_ubound)
    from root show "- 1 \<le> sqrt h" by linarith
    from root show "sqrt h \<le> 1" by simp
  qed
  moreover have d: "distance lat1 lon1 lat2 lon2 = 2 * 6371000 * arcsin (sqrt h)"
    by (simp add: distance_def h_def Let_def)
  moreover have "pi < 4" by (rule pi_less_4)
  ultimately have "0 \<le> distance lat1 lon1 lat2 lon2" "distance lat1 lon1 lat2 lon2 < 25484000"
    by simp_all
  moreover have "(25484000::real) < MaxFloat64"
    by (simp add: MaxFloat64_def)
  ultimately show ?thesis by simp
qed


lemma entryDistance_bounds: "0 \<le> entryDistance lat lon e \<and> entryDistance lat lon e < MaxFloat64"
  unfolding entryDistance_def by (rule distance_bounds)




subsection \<open>Stations and the service\<close>

lemma Closest_empty: "Closest NewGeoSet lat lon = None"
  by (simp add: Closest_def NewGeoSet_def)

lemma Closest_single: "Closest (Add NewGeoSet a b v) lat lon = Some v"
  using entryDistance_bounds [of lat lon "\<lparr>latitude = a, longitude = b, value = v\<rparr>"]
  by (simp add: Closest_def NewGeoSet_def Add_def closestStep_def)

text \<open>
  C1 (a defect of the code). With no station registered both queries panic: \<open>Closest\<close>
  returns the \<open>nil\<close> interface and the type assertion \<open>.(Station)\<close> on it panics
  before the test \<open>s == nil\<close>, which was to return "location not found", is reached.
\<close>

theorem queries_without_stations_panic:
  "API_GetCurrentReport z NewAPI heap e req = Inl InterfaceConversion
   \<and> API_GetForecast z NewAPI heap e req = Inl InterfaceConversion"
  by (simp add: API_GetCurrentReport_def API_GetForecast_def NewAPI_def Closest_empty
      assertStation_def)

lemma shouldRefresh_iff: "shouldRefresh now s \<longleftrightarrow> now - lastRefreshed s > refreshFrequency"
  by (auto simp: shouldRefresh_def)

lemma GetReport_fresh:
  "\<not> shouldRefresh (nowAtCheck e) s \<Longrightarrow> GetReport z e s = Inr (s, currentReport s, None)"
  by (simp add: GetReport_def)

lemma GetForecast_fresh:
  "\<not> shouldRefresh (nowAtCheck e) s \<Longrightarrow> GetForecast z e s = Inr (s, forecast s, None)"
  by (simp add: GetForecast_def)

lemma refresh_served:
  assumes "ex = Response 200 (Some feed)" and "parseFeed z (Some feed) = Inr (report, forecasts)"
  shows "refresh z ex now s
      = Inr (s\<lparr>fetches := fetches s + 1, currentReport := Some report, forecast := forecasts,
              lastRefreshed := now\<rparr>, None)"
  using assms by (simp add: refresh_def getFeed_def)

lemma refresh_error:
  assumes "ex = NoRequest \<or> ex = TransportError \<or> ex = Response 200 None"
  shows "\<exists>err. refresh z ex now s = Inr (s\<lparr>fetches := fetches s + 1\<rparr>, Some err)"
  using assms by (auto simp: refresh_def getFeed_def)

lemma refresh_status:
  assumes "code \<noteq> 200"
  shows "refresh z (Response code body) now s = Inl NilPointerDereference"
  using assms by (simp add: refresh_def getFeed_def parseFeed_def)


lemma GetReport_counts:
  assumes "shouldRefresh (nowAtCheck e) s" and "GetReport z e s = Inr (s', r)"
  shows "fetches s' = fetches s + 1"
  using assms
  by (auto simp: GetReport_def refresh_def getFeed_def Let_def
      split: exchange.splits if_splits option.splits sum.splits prod.splits)

lemma GetForecast_counts:
  assumes "shouldRefresh (nowAtCheck e) s" and "GetForecast z e s = Inr (s', r)"
  shows "fetches s' = fetches s + 1"
  using assms
  by (auto simp: GetForecast_def refresh_def getFeed_def Let_def
      split: exchange.splits if_splits option.splits sum.splits prod.splits)

lemma GetReport_served:
  assumes "shouldRefresh (nowAtCheck e) s" and "upstream e = Response 200 (Some feed)"
    and "parseFeed z (Some feed) = Inr (report, forecasts)"
  shows "GetReport z e s
      = Inr (s\<lparr>fetches := fetches s + 1, currentReport := Some report, forecast := forecasts,
              lastRefreshed := nowAtStore e\<rparr>, Some report, None)"
  using assms by (simp add: GetReport_def refresh_served)

lemma GetForecast_served:
  assumes "shouldRefresh (nowAtCheck e) s" and "upstream e = Response 200 (Some feed)"
    and "parseFeed z (Some feed) = Inr (report, forecasts)"
  shows "GetForecast z e s
      = Inr (s\<lparr>fetches := fetches s + 1, currentReport := Some report, forecast := forecasts,
              lastRefreshed := nowAtStore e\<rparr>, forecasts, None)"
  using assms by (simp add: GetForecast_def refresh_served)

text \<open>
  C9 (amended). A station is stale exactly when more than 30 minutes have passed since
  its last refresh; a station never refreshed has the zero time as its last refresh.
  \<open>GetReport\<close> and \<open>GetForecast\<close> on a station that is not stale return the cached
  report and forecasts and ask the provider for nothing. On a stale station every call
  that returns has asked the provider once. When the provider answers with a feed, the
  parsed report and forecasts replace the cached ones, whatever these were, the refresh
  is dated, and the call returns the new data; a second \<open>GetReport\<close> at most 30 minutes
  after that date returns the same report from the same station state, so the two calls
  asked the provider once.
\<close>

theorem station_cache_ttl:
  "(shouldRefresh now s \<longleftrightarrow> now - lastRefreshed s > 30 * 60 * 1000000000)
   \<and> lastRefreshed (NewStation u t la lo) = 0
   \<and> (\<not> shouldRefresh (nowAtCheck e) s
      \<longrightarrow> GetReport z e s = Inr (s, currentReport s, None)
          \<and> GetForecast z e s = Inr (s, forecast s, None))
   \<and> (shouldRefresh (nowAtCheck e) s \<and> GetReport z e s = Inr (s', r) \<longrightarrow> fetches s' = fetches s + 1)
   \<and> (shouldRefresh (nowAtCheck e) s \<and> GetForecast z e s = Inr (s', r') \<longrightarrow> fetches s' = fetches s + 1)
   \<and> (shouldRefresh (nowAtCheck e) s \<and> upstream e = Response 200 (Some feed)
        \<and> parseFeed z (Some feed) = Inr (report, forecasts)
      \<longrightarrow> GetReport z e s
            = Inr (s\<lparr>fetches := fetches s + 1, currentReport := Some report, forecast := forecasts,
                    lastRefreshed := nowAtStore e\<rparr>, Some report, None)
          \<and> GetForecast z e s
            = Inr (s\<lparr>fetches := fetches s + 1, currentReport := Some report, forecast := forecasts,
                    lastRefreshed := nowAtStore e\<rparr>, forecasts, None)
          \<and> (nowAtCheck e2 - nowAtStore e \<le> 30 * 60 * 1000000000
             \<longrightarrow> GetReport z e2
                   (s\<lparr>fetches := fetches s + 1, currentReport := Some report, forecast := forecasts,
                      lastRefreshed := nowAtStore e\<rparr>)
                 = Inr (s\<lparr>fetches := fetches s + 1, currentReport := Some report,
                          forecast := forecasts, lastRefreshed := nowAtStore e\<rparr>,
                        Some report, None)))"
proof -
  have stale: "shouldRefresh now s \<longleftrightarrow> now - lastRefreshed s > 30 * 60 * 1000000000"
    by (simp add: shouldRefresh_iff refreshFrequency_def)
  have never: "lastRefreshed (NewStation u t la lo) = 0"
    by (simp add: NewStation_def)
  have fresh: "\<not> shouldRefresh (nowAtCheck e) s
      \<longrightarrow> GetReport z e s = Inr (s, currentReport s, None)
          \<and> GetForecast z e s = Inr (s, forecast s, None)"
    by (simp add: GetReport_fresh GetForecast_fresh)
  have again: "GetReport z e2
                   (s\<lparr>fetches := fetches s + 1, currentReport := Some report, forecast := forecasts,
                      lastRefreshed := nowAtStore e\<rparr>)
                 = Inr (s\<lparr>fetches := fetches s + 1, currentReport := Some report,
                          forecast := forecasts, lastRefreshed := nowAtStore e\<rparr>,
                        Some report, None)"
    if "nowAtCheck e2 - nowAtStore e \<le> 30 * 60 * 1000000000"
  proof -
    from that have "\<not> shouldRefresh (nowAtCheck e2)
        (s\<lparr>fetches := fetches s + 1, currentReport := Some report, forecast := forecasts,
           lastRefreshed := nowAtStore e\<rparr>)"
      by (simp add: shouldRefresh_iff refreshFrequency_def)
    then show ?thesis by (simp add: GetReport_fresh)
  qed
  from stale never fresh GetReport_counts [of e s z s' r] GetForecast_counts [of e s z s' r']
    GetReport_served [of e s feed z report forecasts]
    GetForecast_served [of e s feed z report forecasts] again
  show ?thesis by blast
qed


lemma parseFeed_no_items: "parseFeed z (Some \<lparr>Items = []\<rparr>) = Inr (emptyReport z, [])"
  by (simp add: parseFeed_def emptyReport_def)

lemma parseFeed_night:
  "parseFeed z (Some \<lparr>Items = [nightItem]\<rparr>)
   = Inr (emptyReport z, [itemForecast z nightItem (Date 2019 1 5 10 0 0) (Date 2019 1 5 11 0 0)])"
  by (simp add: parseFeed_def emptyReport_def parseCategory_def nightItem_def)

lemma kitchener_fields:
  "lastRefreshed kitchener = 0" "fetches kitchener = 0" "title kitchener = ''Kitchener Waterloo''"
  "currentReport kitchener = None" "forecast kitchener = []"
  by (simp_all add: kitchener_def NewStation_def)

theorem station_cache_ttl_witness:
  "shouldRefresh (nowAtCheck firstCall) kitchener
   \<and> GetReport SUNNY firstCall kitchener = Inr (kitchenerRefreshed, Some (emptyReport SUNNY), None)
   \<and> fetches kitchenerRefreshed = fetches kitchener + 1
   \<and> \<not> shouldRefresh (nowAtCheck secondCall) kitchenerRefreshed
   \<and> GetReport SUNNY secondCall kitchenerRefreshed
       = Inr (kitchenerRefreshed, Some (emptyReport SUNNY), None)
   \<and> shouldRefresh (nowAtCheck thirdCall) kitchenerRefreshed
   \<and> GetReport SUNNY thirdCall kitchenerRefreshed
       = Inr (kitchenerRefreshed\<lparr>fetches := fetches kitchenerRefreshed + 1,
                currentReport := Some (emptyReport SUNNY),
                forecast := [itemForecast SUNNY nightItem (Date 2019 1 5 10 0 0) (Date 2019 1 5 11 0 0)],
                lastRefreshed := nowAtStore thirdCall\<rparr>,
              Some (emptyReport SUNNY), None)"
proof -
  let ?fc = "[itemForecast SUNNY nightItem (Date 2019 1 5 10 0 0) (Date 2019 1 5 11 0 0)]"
  note first = station_cache_ttl [where s = kitchener and e = firstCall and z = SUNNY
      and feed = "\<lparr>Items = []\<rparr>" and report = "emptyReport SUNNY" and forecasts = "[]"
      and ?e2.0 = secondCall and now = "nowAtCheck firstCall"]
  note third = station_cache_ttl [where s = kitchenerRefreshed and e = thirdCall and z = SUNNY
      and feed = "\<lparr>Items = [nightItem]\<rparr>" and report = "emptyReport SUNNY" and forecasts = ?fc
      and now = "nowAtCheck thirdCall"]
  note second = station_cache_ttl [where s = kitchenerRefreshed and now = "nowAtCheck secondCall"
      and e = secondCall and z = SUNNY]
  have stale1: "shouldRefresh (nowAtCheck firstCall) kitchener"
    using first by (simp add: firstCall_def kitchener_fields)
  have up1: "upstream firstCall = Response 200 (Some \<lparr>Items = []\<rparr>)"
    by (simp add: firstCall_def)
  have refreshed: "kitchener\<lparr>fetches := fetches kitchener + 1, currentReport := Some (emptyReport SUNNY),
        forecast := [], lastRefreshed := nowAtStore firstCall\<rparr> = kitchenerRefreshed"
    by (simp add: kitchenerRefreshed_def firstCall_def kitchener_fields)
  from first stale1 up1 parseFeed_no_items [of SUNNY]
  have "GetReport SUNNY firstCall kitchener
      = Inr (kitchener\<lparr>fetches := fetches kitchener + 1, currentReport := Some (emptyReport SUNNY),
               forecast := [], lastRefreshed := nowAtStore firstCall\<rparr>, Some (emptyReport SUNNY), None)"
    by blast
  then have call1: "GetReport SUNNY firstCall kitchener
      = Inr (kitchenerRefreshed, Some (emptyReport SUNNY), None)"
    by (simp only: refreshed)
  have count1: "fetches kitchenerRefreshed = fetches kitchener + 1"
    by (simp add: kitchenerRefreshed_def kitchener_fields)
  have fresh2: "\<not> shouldRefresh (nowAtCheck secondCall) kitchenerRefreshed"
    using second by (simp add: secondCall_def kitchenerRefreshed_def)
  have cached: "currentReport kitchenerRefreshed = Some (emptyReport SUNNY)"
    by (simp add: kitchenerRefreshed_def)
  from second fresh2
  have "GetReport SUNNY secondCall kitchenerRefreshed
      = Inr (kitchenerRefreshed, currentReport kitchenerRefreshed, None)"
    by blast
  then have call2: "GetReport SUNNY secondCall kitchenerRefreshed
      = Inr (kitchenerRefreshed, Some (emptyReport SUNNY), None)"
    by (simp only: cached)
  have stale3: "shouldRefresh (nowAtCheck thirdCall) kitchenerRefreshed"
    using third by (simp add: thirdCall_def kitchenerRefreshed_def)
  have up3: "upstream thirdCall = Response 200 (Some \<lparr>Items = [nightItem]\<rparr>)"
    by (simp add: thirdCall_def)
  from third stale3 up3 parseFeed_night [of SUNNY]
  have call3: "GetReport SUNNY thirdCall kitchenerRefreshed
       = Inr (kitchenerRefreshed\<lparr>fetches := fetches kitchenerRefreshed + 1,
                currentReport := Some (emptyReport SUNNY), forecast := ?fc,
                lastRefreshed := nowAtStore thirdCall\<rparr>,
              Some (emptyReport SUNNY), None)"
    by blast
  from stale1 call1 count1 fresh2 call2 stale3 call3 show ?thesis
    by (intro conjI)
qed

text \<open>
  The claim as stated, with a refresh when 30 minutes or more have passed, fails at
  exactly 30 minutes: the second call comes 30 minutes to the nanosecond after the
  refresh, and both methods return the cache and leave the station, its count of
  requests included, as it was.
\<close>

theorem station_cache_boundary_counterexample:
  "nowAtCheck secondCall - lastRefreshed kitchenerRefreshed = 30 * 60 * 1000000000
   \<and> GetReport SUNNY secondCall kitchenerRefreshed
       = Inr (kitchenerRefreshed, Some (emptyReport SUNNY), None)
   \<and> GetForecast SUNNY secondCall kitchenerRefreshed = Inr (kitchenerRefreshed, [], None)"
  by (simp add: GetReport_def GetForecast_def shouldRefresh_def refreshFrequency_def
      secondCall_def kitchenerRefreshed_def)

text \<open>
  C2 (a defect of the code). The station of the server, stale, and a request that fails
  in the transport: \<open>GetForecast\<close> returns the error, and \<open>GetCurrentReport\<close> returns a
  response without a report and no error. When the provider answers with status 503,
  \<open>getFeed\<close> returns no feed and no error, \<open>parseFeed\<close> reads the \<open>nil\<close> feed, and both
  queries panic. In the cases that return, the cached report, the forecasts and the date
  of the last refresh are as before.
\<close>

theorem upstream_failure_not_surfaced:
  "RegisterStation NewAPI [kitchener] 0 = Inr kitchenerAPI
   \<and> shouldRefresh 2000000000000 kitchener
   \<and> API_GetCurrentReport z kitchenerAPI [kitchener]
        \<lparr>nowAtCheck = 2000000000000, upstream = TransportError, nowAtStore = 2000000000001\<rparr> req
       = Inr ([kitchener\<lparr>fetches := 1\<rparr>],
              Some \<lparr>Report = None, StationName = ''Kitchener Waterloo''\<rparr>, None)
   \<and> API_GetForecast z kitchenerAPI [kitchener]
        \<lparr>nowAtCheck = 2000000000000, upstream = TransportError, nowAtStore = 2000000000001\<rparr> req
       = Inr ([kitchener\<lparr>fetches := 1\<rparr>], None, Some ErrTransport)
   \<and> API_GetCurrentReport z kitchenerAPI [kitchener]
        \<lparr>nowAtCheck = 2000000000000, upstream = Response 503 None, nowAtStore = 2000000000001\<rparr> req
       = Inl NilPointerDereference
   \<and> API_GetForecast z kitchenerAPI [kitchener]
        \<lparr>nowAtCheck = 2000000000000, upstream = Response 503 None, nowAtStore = 2000000000001\<rparr> req
       = Inl NilPointerDereference"
proof -
  have reg: "RegisterStation NewAPI [kitchener] 0 = Inr kitchenerAPI"
    by (simp add: RegisterStation_def NewAPI_def kitchenerAPI_def kitchener_def NewStation_def)
  have stale: "shouldRefresh 2000000000000 kitchener"
    by (simp add: shouldRefresh_def refreshFrequency_def kitchener_fields)
  have near: "Closest (stations kitchenerAPI) (Latitude req) (Longitude req) = Some 0"
    by (simp add: kitchenerAPI_def Closest_single)
  have err: "refresh z TransportError 2000000000001 kitchener
      = Inr (kitchener\<lparr>fetches := 1\<rparr>, Some ErrTransport)"
    by (simp add: refresh_def getFeed_def kitchener_fields)
  have status: "refresh z (Response 503 None) 2000000000001 kitchener = Inl NilPointerDereference"
    by (simp add: refresh_status)
  have name: "title (kitchener\<lparr>fetches := 1\<rparr>) = ''Kitchener Waterloo''"
    by (simp add: kitchener_fields)
  have report: "API_GetCurrentReport z kitchenerAPI [kitchener]
        \<lparr>nowAtCheck = 2000000000000, upstream = TransportError, nowAtStore = 2000000000001\<rparr> req
       = Inr ([kitchener\<lparr>fetches := 1\<rparr>],
              Some \<lparr>Report = None, StationName = ''Kitchener Waterloo''\<rparr>, None)"
    using stale by (simp add: API_GetCurrentReport_def near assertStation_def GetReport_def err kitchener_fields)
  have fc: "API_GetForecast z kitchenerAPI [kitchener]
        \<lparr>nowAtCheck = 2000000000000, upstream = TransportError, nowAtStore = 2000000000001\<rparr> req
       = Inr ([kitchener\<lparr>fetches := 1\<rparr>], None, Some ErrTransport)"
    using stale by (simp add: API_GetForecast_def near assertStation_def GetForecast_def err)
  have report': "API_GetCurrentReport z kitchenerAPI [kitchener]
        \<lparr>nowAtCheck = 2000000000000, upstream = Response 503 None, nowAtStore = 2000000000001\<rparr> req
       = Inl NilPointerDereference"
    using stale by (simp add: API_GetCurrentReport_def near assertStation_def GetReport_def status)
  have fc': "API_GetForecast z kitchenerAPI [kitchener]
        \<lparr>nowAtCheck = 2000000000000, upstream = Response 503 None, nowAtStore = 2000000000001\<rparr> req
       = Inl NilPointerDereference"
    using stale by (simp add: API_GetForecast_def near assertStation_def GetForecast_def status)
  from reg stale report fc report' fc' show ?thesis
    by (intro conjI)
qed

subsection \<open>The NOAA adapter\<close>

lemma float_out_of_range:
  "getCurrentFloatFromProperty um f propName = Inl IndexOutOfRange
   \<longleftrightarrow> (\<exists>raw property. Properties f propName = Some (Some raw) \<and> um raw = Some property
          \<and> Values property = [])"
  by (auto simp: getCurrentFloatFromProperty_def Let_def split: option.splits list.splits)

lemma int_out_of_range:
  "getCurrentIntFromProperty um f propName = Inl IndexOutOfRange
   \<longleftrightarrow> (\<exists>raw property. Properties f propName = Some (Some raw) \<and> um raw = Some property
          \<and> Values property = [])"
  by (auto simp: getCurrentIntFromProperty_def split: option.splits list.splits)

text \<open>
  C10. The two extractions return 0 for a property that the feature does not have and
  for one that does not unmarshal. For a property that unmarshals they read the first
  value of its list without a test, so the result is the panic of an index out of range
  when the list is empty, and otherwise the value (converted from degrees Fahrenheit
  when the unit says so; the low 32 bits of the integer). Hence an extraction that
  returns for every name needs every present property that unmarshals to have a value,
  and under that precondition the index is never out of range.
\<close>

theorem property_extraction:
  "(Properties f propName = None
      \<longrightarrow> getCurrentFloatFromProperty umf f propName = Inr 0
          \<and> getCurrentIntFromProperty umi f propName = Inr 0)
   \<and> (Properties f propName = Some (Some raw) \<and> umf raw = None
      \<longrightarrow> getCurrentFloatFromProperty umf f propName = Inr 0)
   \<and> (Properties f propName = Some (Some raw) \<and> umi raw = None
      \<longrightarrow> getCurrentIntFromProperty umi f propName = Inr 0)
   \<and> (Properties f propName = Some (Some raw) \<and> umf raw = Some p
      \<longrightarrow> getCurrentFloatFromProperty umf f propName
          = (case Values p of
               [] \<Rightarrow> Inl IndexOutOfRange
             | v # vs \<Rightarrow> Inr (if UnitOfMeasure p = ''unit:degF'' then (Value v - 32) * 5 / 9
                              else Value v)))
   \<and> (Properties f propName = Some (Some raw) \<and> umi raw = Some q
      \<longrightarrow> getCurrentIntFromProperty umi f propName
          = (case Values q of [] \<Rightarrow> Inl IndexOutOfRange | v # vs \<Rightarrow> Inr (ucast (Value v))))
   \<and> ((\<forall>name. \<exists>x. getCurrentFloatFromProperty umf f name = Inr x) \<longrightarrow> valuesPresent umf f)
   \<and> ((\<forall>name. \<exists>x. getCurrentIntFromProperty umi f name = Inr x) \<longrightarrow> valuesPresent umi f)
   \<and> (valuesPresent umf f \<longrightarrow> getCurrentFloatFromProperty umf f propName \<noteq> Inl IndexOutOfRange)
   \<and> (valuesPresent umi f \<longrightarrow> getCurrentIntFromProperty umi f propName \<noteq> Inl IndexOutOfRange)"
proof -
  have missing: "Properties f propName = None
      \<longrightarrow> getCurrentFloatFromProperty umf f propName = Inr 0
          \<and> getCurrentIntFromProperty umi f propName = Inr 0"
    by (simp add: getCurrentFloatFromProperty_def getCurrentIntFromProperty_def)
  have badf: "Properties f propName = Some (Some raw) \<and> umf raw = None
      \<longrightarrow> getCurrentFloatFromProperty umf f propName = Inr 0"
    by (simp add: getCurrentFloatFromProperty_def)
  have badi: "Properties f propName = Some (Some raw) \<and> umi raw = None
      \<longrightarrow> getCurrentIntFromProperty umi f propName = Inr 0"
    by (simp add: getCurrentIntFromProperty_def)
  have goodf: "Properties f propName = Some (Some raw) \<and> umf raw = Some p
      \<longrightarrow> getCurrentFloatFromProperty umf f propName
          = (case Values p of
               [] \<Rightarrow> Inl IndexOutOfRange
             | v # vs \<Rightarrow> Inr (if UnitOfMeasure p = ''unit:degF'' then (Value v - 32) * 5 / 9
                              else Value v))"
    by (simp add: getCurrentFloatFromProperty_def Let_def split: list.splits)
  have goodi: "Properties f propName = Some (Some raw) \<and> umi raw = Some q
      \<longrightarrow> getCurrentIntFromProperty umi f propName
          = (case Values q of [] \<Rightarrow> Inl IndexOutOfRange | v # vs \<Rightarrow> Inr (ucast (Value v)))"
    by (simp add: getCurrentIntFromProperty_def split: list.splits)
  have totalf: "valuesPresent umf f" if "\<forall>name. \<exists>x. getCurrentFloatFromProperty umf f name = Inr x"
    unfolding valuesPresent_def
  proof (intro allI impI)
    fix name raw' property
    assume present: "Properties f name = Some (Some raw') \<and> umf raw' = Some property"
    show "Values property \<noteq> []"
    proof
      assume "Values property = []"
      with present have "getCurrentFloatFromProperty umf f name = Inl IndexOutOfRange"
        by (auto simp: float_out_of_range)
      with that show False by (metis sum.distinct(1))
    qed
  qed
  have totali: "valuesPresent umi f" if "\<forall>name. \<exists>x. getCurrentIntFromProperty umi f name = Inr x"
    unfolding valuesPresent_def
  proof (intro allI impI)
    fix name raw' property
    assume present: "Properties f name = Some (Some raw') \<and> umi raw' = Some property"
    show "Values property \<noteq> []"
    proof
      assume "Values property = []"
      with present have "getCurrentIntFromProperty umi f name = Inl IndexOutOfRange"
        by (auto simp: int_out_of_range)
      with that show False by (metis sum.distinct(1))
    qed
  qed
  have safef: "valuesPresent umf f \<longrightarrow> getCurrentFloatFromProperty umf f propName \<noteq> Inl IndexOutOfRange"
    by (auto simp: float_out_of_range valuesPresent_def)
  have safei: "valuesPresent umi f \<longrightarrow> getCurrentIntFromProperty umi f propName \<noteq> Inl IndexOutOfRange"
    by (auto simp: int_out_of_range valuesPresent_def)
  from missing badf badi goodf goodi totalf totali safef safei show ?thesis
    by blast
qed


theorem property_extraction_witness:
  "Properties exampleFeature ''windSpeed'' = None
   \<and> getCurrentFloatFromProperty exampleFloats exampleFeature ''windSpeed'' = Inr 0
   \<and> Properties exampleFeature ''dewpoint'' = Some (Some ''?'') \<and> exampleFloats ''?'' = None
   \<and> getCurrentFloatFromProperty exampleFloats exampleFeature ''dewpoint'' = Inr 0
   \<and> getCurrentFloatFromProperty exampleFloats exampleFeature ''temperature'' = Inr 100
   \<and> getCurrentIntFromProperty exampleInts exampleFeature ''relativeHumidity'' = Inr 86
   \<and> valuesPresent exampleFloats exampleFeature
   \<and> getCurrentFloatFromProperty exampleFloats exampleFeature ''temperature'' \<noteq> Inl IndexOutOfRange
   \<and> getCurrentFloatFromProperty exampleFloats calmFeature ''windSpeed'' = Inl IndexOutOfRange
   \<and> \<not> valuesPresent exampleFloats calmFeature"
proof -
  let ?t = "\<lparr>SourceUnit = ''NWS'', UnitOfMeasure = ''unit:degF'',
      Values = [\<lparr>ValidTime = ''2024-11-20T10:00:00+00:00/PT1H'', Value = 212::real\<rparr>]\<rparr>"
  let ?h = "\<lparr>SourceUnit = ''NWS'', UnitOfMeasure = ''unit:percent'',
      Values = [\<lparr>ValidTime = ''2024-11-20T10:00:00+00:00/PT1H'', Value = 86::64 word\<rparr>]\<rparr>"
  let ?w = "\<lparr>SourceUnit = ''NWS'', UnitOfMeasure = ''unit:km_h-1'',
      Values = ([] :: real propertyValue list)\<rparr>"
  note wind = property_extraction [where f = exampleFeature and propName = "''windSpeed''"
      and umf = exampleFloats and umi = exampleInts]
  note dew = property_extraction [where f = exampleFeature and propName = "''dewpoint''"
      and umf = exampleFloats and umi = exampleInts and raw = "''?''"]
  note temp = property_extraction [where f = exampleFeature and propName = "''temperature''"
      and umf = exampleFloats and umi = exampleInts and raw = "''T''" and p = ?t]
  note hum = property_extraction [where f = exampleFeature and propName = "''relativeHumidity''"
      and umf = exampleFloats and umi = exampleInts and raw = "''H''" and q = ?h]
  note calm = property_extraction [where f = calmFeature and propName = "''windSpeed''"
      and umf = exampleFloats and umi = exampleInts and raw = "''W''" and p = ?w]
  have noWind: "Properties exampleFeature ''windSpeed'' = None"
    by (simp add: exampleFeature_def)
  with wind have wind0: "getCurrentFloatFromProperty exampleFloats exampleFeature ''windSpeed'' = Inr 0"
    by blast
  have dewRaw: "Properties exampleFeature ''dewpoint'' = Some (Some ''?'')" "exampleFloats ''?'' = None"
    by (simp_all add: exampleFeature_def exampleFloats_def)
  with dew have dew0: "getCurrentFloatFromProperty exampleFloats exampleFeature ''dewpoint'' = Inr 0"
    by blast
  have tempRaw: "Properties exampleFeature ''temperature'' = Some (Some ''T'') \<and> exampleFloats ''T'' = Some ?t"
    by (simp add: exampleFeature_def exampleFloats_def)
  with temp have "getCurrentFloatFromProperty exampleFloats exampleFeature ''temperature''
      = (case Values ?t of
           [] \<Rightarrow> Inl IndexOutOfRange
         | v # vs \<Rightarrow> Inr (if UnitOfMeasure ?t = ''unit:degF'' then (Value v - 32) * 5 / 9 else Value v))"
    by blast
  then have temp100: "getCurrentFloatFromProperty exampleFloats exampleFeature ''temperature'' = Inr 100"
    by simp
  have humRaw: "Properties exampleFeature ''relativeHumidity'' = Some (Some ''H'') \<and> exampleInts ''H'' = Some ?h"
    by (simp add: exampleFeature_def exampleInts_def)
  with hum have "getCurrentIntFromProperty exampleInts exampleFeature ''relativeHumidity''
      = (case Values ?h of [] \<Rightarrow> Inl IndexOutOfRange | v # vs \<Rightarrow> Inr (ucast (Value v)))"
    by blast
  then have hum86: "getCurrentIntFromProperty exampleInts exampleFeature ''relativeHumidity'' = Inr 86"
    by simp
  have "\<forall>name. \<exists>x. getCurrentFloatFromProperty exampleFloats exampleFeature name = Inr x"
    by (simp add: getCurrentFloatFromProperty_def exampleFeature_def exampleFloats_def)
  with temp have present: "valuesPresent exampleFloats exampleFeature"
    by blast
  with temp have safe: "getCurrentFloatFromProperty exampleFloats exampleFeature ''temperature''
      \<noteq> Inl IndexOutOfRange"
    by blast
  have calmRaw: "Properties calmFeature ''windSpeed'' = Some (Some ''W'') \<and> exampleFloats ''W'' = Some ?w"
    by (simp add: calmFeature_def exampleFloats_def)
  with calm have "getCurrentFloatFromProperty exampleFloats calmFeature ''windSpeed''
      = (case Values ?w of
           [] \<Rightarrow> Inl IndexOutOfRange
         | v # vs \<Rightarrow> Inr (if UnitOfMeasure ?w = ''unit:degF'' then (Value v - 32) * 5 / 9 else Value v))"
    by blast
  then have panics: "getCurrentFloatFromProperty exampleFloats calmFeature ''windSpeed'' = Inl IndexOutOfRange"
    by simp
  with calm have absent: "\<not> valuesPresent exampleFloats calmFeature"
    by blast
  from noWind wind0 dewRaw dew0 temp100 hum86 present safe panics absent show ?thesis
    by (intro conjI)
qed

end
